theory Spec2Isabelle
  imports Main "HOL-Library.Word"
begin

section \<open>Values of the Python program\<close>

text \<open>
  The module \<^verbatim>\<open>xgi/readwrite/xgi_data.py\<close> has three functions:
  \<^verbatim>\<open>load_xgi_data\<close>, \<^verbatim>\<open>download_xgi_data\<close> and the helper
  \<^verbatim>\<open>_request_from_xgi_data\<close>. They call the HTTP client, the JSON codec, the
  file system and the converter \<^verbatim>\<open>convert.dict_to_hypergraph\<close>.

  A Python \<^verbatim>\<open>str\<close> is a sequence of Unicode code points.
\<close>

type_synonym pystr = "nat list"

definition lit :: "string \<Rightarrow> pystr" where
  "lit s = map of_char s"

text \<open>
  What \<^verbatim>\<open>json.load\<close> and \<^verbatim>\<open>Response.json()\<close> return: \<^verbatim>\<open>None\<close>, a
  \<^verbatim>\<open>bool\<close>, an \<^verbatim>\<open>int\<close> (unbounded), a \<^verbatim>\<open>float\<close> (its 64 bits), a
  \<^verbatim>\<open>str\<close>, a \<^verbatim>\<open>list\<close> or a \<^verbatim>\<open>dict\<close> with \<^verbatim>\<open>str\<close> keys, kept
  in insertion order.
\<close>

datatype json =
    JNull
  | JBool bool
  | JInt int
  | JFloat "64 word"
  | JStr pystr
  | JArr "json list"
  | JObj "(pystr \<times> json) list"

text \<open>
  The exceptions that can leave the three functions. \<open>XGIError\<close> carries its message;
  the others are the exceptions of the library calls.
\<close>

datatype error =
    XGIError pystr
  | RequestException
  | JSONDecodeError
  | TypeError
  | KeyError
  | OSError

datatype node = File pystr | Dir

text \<open>
  The world outside the process, and what the process has done to it:
  \<^item> \<open>remote\<close>: the body that a GET of a URL answers, or the failure of the transport;
  \<^item> \<open>fs\<close>: the file system, from path to regular file (its text) or directory;
  \<^item> \<open>can_read\<close>, \<open>can_write\<close>: whether \<^verbatim>\<open>open(p, 'r')\<close> and
    \<^verbatim>\<open>open(p, 'w')\<close> are permitted at a path;
  \<^item> \<open>stdout\<close>: the text printed so far;
  \<^item> \<open>warnings\<close>: the messages passed to \<^verbatim>\<open>warn\<close> so far;
  \<^item> \<open>gets\<close>: the arguments of the calls of \<^verbatim>\<open>requests.get\<close> so far, in order.

  The remote answers the same URL in the same way throughout a call. The file system is
  keyed by the path as written, as a case-sensitive file system without links is.
  \<^verbatim>\<open>warn\<close> returns after recording the message, as it does under the default
  warning filter.
\<close>

record world =
  remote :: "pystr \<Rightarrow> error + pystr"
  fs :: "pystr \<rightharpoonup> node"
  can_read :: "pystr \<Rightarrow> bool"
  can_write :: "pystr \<Rightarrow> bool"
  stdout :: pystr
  warnings :: "pystr list"
  gets :: "json list"

text \<open>
  The library functions that the module calls and that are not part of it:
  \<^verbatim>\<open>str.lower\<close>, \<^verbatim>\<open>str.upper\<close>, \<^verbatim>\<open>str()\<close> of a value that is not a
  string, the JSON parser and serialiser, and the converter.
\<close>

record ('t, 'h) env =
  str_lower :: "pystr \<Rightarrow> pystr"
  str_upper :: "pystr \<Rightarrow> pystr"
  py_str :: "json \<Rightarrow> pystr"
  json_loads :: "pystr \<Rightarrow> error + json"
  json_dumps :: "json \<Rightarrow> pystr"
  dict_to_hypergraph :: "json \<Rightarrow> 't option \<Rightarrow> 't option \<Rightarrow> int option \<Rightarrow> error + 'h"

section \<open>Sequencing with exceptions\<close>

text \<open>
  A statement yields a value or raises, and leaves a world. \<open>then_do m f\<close> runs \<open>f\<close>
  on the value of \<open>m\<close>; an exception of \<open>m\<close> skips \<open>f\<close>.
\<close>

type_synonym 'a io = "(error + 'a) \<times> world"

definition then_do :: "'a io \<Rightarrow> ('a \<Rightarrow> world \<Rightarrow> 'b io) \<Rightarrow> 'b io" where
  "then_do m f = (case m of (Inl e, w) \<Rightarrow> (Inl e, w) | (Inr x, w) \<Rightarrow> f x w)"

section \<open>Built-in operations\<close>

definition newline :: pystr where
  "newline = [10]"

fun join_str :: "pystr \<Rightarrow> pystr list \<Rightarrow> pystr" where
  "join_str sep [] = []"
| "join_str sep [x] = x"
| "join_str sep (x # y # ys) = x @ sep @ join_str sep (y # ys)"

text \<open>\<^verbatim>\<open>str(v)\<close>: a string is itself.\<close>

definition to_str :: "('t, 'h) env \<Rightarrow> json \<Rightarrow> pystr" where
  "to_str L v = (case v of JStr s \<Rightarrow> s | _ \<Rightarrow> py_str L v)"

text \<open>\<^verbatim>\<open>print(*args, sep=sep)\<close> writes the arguments, separated, and a newline.\<close>

definition py_print :: "('t, 'h) env \<Rightarrow> json list \<Rightarrow> pystr \<Rightarrow> world \<Rightarrow> world" where
  "py_print L args sep w = w\<lparr>stdout := stdout w @ join_str sep (map (to_str L) args) @ newline\<rparr>"

fun is_prefix :: "pystr \<Rightarrow> pystr \<Rightarrow> bool" where
  "is_prefix [] ys = True"
| "is_prefix (x # xs) [] = False"
| "is_prefix (x # xs) (y # ys) = (x = y \<and> is_prefix xs ys)"

fun is_substring :: "pystr \<Rightarrow> pystr \<Rightarrow> bool" where
  "is_substring xs [] = (xs = [])"
| "is_substring xs (y # ys) = (is_prefix xs (y # ys) \<or> is_substring xs ys)"

text \<open>
  \<^verbatim>\<open>key in index\<close> for a string key: a key of a dict, an element of a list, a
  substring of a string; any other value is not iterable.
\<close>

fun py_contains :: "json \<Rightarrow> pystr \<Rightarrow> error + bool" where
  "py_contains (JObj kvs) k = Inr (k \<in> set (map fst kvs))"
| "py_contains (JArr xs) k = Inr (JStr k \<in> set xs)"
| "py_contains (JStr s) k = Inr (is_substring k s)"
| "py_contains _ k = Inl TypeError"

text \<open>What \<^verbatim>\<open>*index\<close> unpacks: the keys of a dict, the elements of a list, the
  characters of a string.\<close>

fun py_iter :: "json \<Rightarrow> json list" where
  "py_iter (JObj kvs) = map (\<lambda>kv. JStr (fst kv)) kvs"
| "py_iter (JArr xs) = xs"
| "py_iter (JStr s) = map (\<lambda>c. JStr [c]) s"
| "py_iter _ = []"

text \<open>\<^verbatim>\<open>v[k]\<close> for a string \<open>k\<close>: only a dict can be subscripted by a string.\<close>

fun py_getitem :: "json \<Rightarrow> pystr \<Rightarrow> error + json" where
  "py_getitem (JObj kvs) k = (case map_of kvs k of None \<Rightarrow> Inl KeyError | Some v \<Rightarrow> Inr v)"
| "py_getitem _ k = Inl TypeError"

text \<open>
  \<^verbatim>\<open>os.path.join(a, b)\<close> of \<^verbatim>\<open>posixpath\<close>: an absolute \<open>b\<close> replaces \<open>a\<close>; a
  separator is added unless \<open>a\<close> is empty or ends with one.
\<close>

definition os_path_join :: "pystr \<Rightarrow> pystr \<Rightarrow> pystr" where
  "os_path_join a b =
     (if is_prefix [47] b then b
      else if a = [] \<or> last a = 47 then a @ b
      else a @ [47] @ b)"

definition os_path_exists :: "world \<Rightarrow> pystr \<Rightarrow> bool" where
  "os_path_exists w p = (fs w p \<noteq> None)"

text \<open>\<^verbatim>\<open>open(p, 'r')\<close> followed by reading the whole file.\<close>

definition open_read :: "pystr \<Rightarrow> world \<Rightarrow> pystr io" where
  "open_read p w =
     (case fs w p of
        Some (File text) \<Rightarrow> if can_read w p then (Inr text, w) else (Inl OSError, w)
      | _ \<Rightarrow> (Inl OSError, w))"

text \<open>\<^verbatim>\<open>open(p, 'w')\<close> creates the file or truncates it; the handle is the path.\<close>

definition open_write :: "pystr \<Rightarrow> world \<Rightarrow> pystr io" where
  "open_write p w =
     (if fs w p = Some Dir \<or> \<not> can_write w p then (Inl OSError, w)
      else (Inr p, w\<lparr>fs := (fs w)(p \<mapsto> File [])\<rparr>))"

definition file_write :: "pystr \<Rightarrow> pystr \<Rightarrow> world \<Rightarrow> world" where
  "file_write p text w =
     w\<lparr>fs := (fs w)(p \<mapsto> File ((case fs w p of Some (File old) \<Rightarrow> old | _ \<Rightarrow> []) @ text))\<rparr>"

definition warn :: "pystr \<Rightarrow> world \<Rightarrow> world" where
  "warn msg w = w\<lparr>warnings := warnings w @ [msg]\<rparr>"

text \<open>
  \<^verbatim>\<open>requests.get(url)\<close>: the call is recorded; a URL that is not a string is
  refused by the client before anything is sent.
\<close>

definition requests_get :: "json \<Rightarrow> world \<Rightarrow> pystr io" where
  "requests_get url w =
     ((case url of JStr u \<Rightarrow> remote w u | _ \<Rightarrow> Inl RequestException),
      w\<lparr>gets := gets w @ [url]\<rparr>)"

text \<open>\<^verbatim>\<open>requests.get(url).json()\<close>\<close>

definition get_json :: "('t, 'h) env \<Rightarrow> json \<Rightarrow> world \<Rightarrow> json io" where
  "get_json L url w = then_do (requests_get url w) (\<lambda>body w'. (json_loads L body, w'))"

section \<open>The module\<close>

definition index_url :: pystr where
  "index_url = lit ''https://gitlab.com/complexgroupinteractions/xgi-data/-/raw/main/index.json?inline=false''"

definition not_found :: error where
  "not_found = XGIError (lit ''Must choose a valid dataset name!'')"

definition request_from_xgi_data :: "('t, 'h) env \<Rightarrow> pystr \<Rightarrow> world \<Rightarrow> json io" where
  "request_from_xgi_data L dataset w =
     then_do (get_json L (JStr index_url) w) (\<lambda>index w1.
       let key = str_lower L dataset in
       case py_contains index key of
         Inl e \<Rightarrow> (Inl e, w1)
       | Inr False \<Rightarrow>
           (Inl not_found,
            py_print L (py_iter index) newline
              (py_print L [JStr (lit ''Valid dataset names:'')] (lit '' '') w1))
       | Inr True \<Rightarrow>
           (case py_getitem index key of
              Inl e \<Rightarrow> (Inl e, w1)
            | Inr entry \<Rightarrow>
                (case py_getitem entry (lit ''url'') of
                   Inl e \<Rightarrow> (Inl e, w1)
                 | Inr url \<Rightarrow> get_json L url w1)))"

definition cache_path :: "pystr \<Rightarrow> pystr \<Rightarrow> pystr" where
  "cache_path path dataset = os_path_join path (dataset @ lit ''.json'')"

definition no_local_copy :: "pystr \<Rightarrow> pystr" where
  "no_local_copy cfp =
     lit ''No local copy was found at '' @ cfp @
     lit ''. The data is requested from the xgi-data repository instead. To download a local copy, use `download_xgi_data`.''"

definition load_xgi_data ::
  "('t, 'h) env \<Rightarrow> pystr \<Rightarrow> pystr \<Rightarrow> bool \<Rightarrow> 't option \<Rightarrow> 't option \<Rightarrow> int option \<Rightarrow> world \<Rightarrow> 'h io"
where
  "load_xgi_data L dataset path read nodetype edgetype max_order w =
     then_do
       (if read then
          (let cfp = cache_path path dataset in
           if os_path_exists w cfp
           then then_do (open_read cfp w) (\<lambda>text w'. (json_loads L text, w'))
           else request_from_xgi_data L dataset (warn (no_local_copy cfp) w))
        else request_from_xgi_data L dataset w)
       (\<lambda>data w'. (dict_to_hypergraph L data nodetype edgetype max_order, w'))"

definition download_xgi_data :: "('t, 'h) env \<Rightarrow> pystr \<Rightarrow> pystr \<Rightarrow> world \<Rightarrow> unit io" where
  "download_xgi_data L dataset path w =
     then_do (request_from_xgi_data L dataset w) (\<lambda>jsondata w1.
       then_do (open_write (cache_path path dataset) w1) (\<lambda>jsonfile w2.
         (Inr (), file_write jsonfile (json_dumps L jsondata) w2)))"

section \<open>A mock environment\<close>

text \<open>
  Concrete library functions and a concrete world, on which the functions of the module
  can be evaluated. The case mappings are Python's on the code points below 256 (other
  code points are left as they are): \<^verbatim>\<open>str.upper\<close> maps U+00DF to \<^verbatim>\<open>SS\<close>,
  U+00B5 to U+039C and U+00FF to U+0178, and \<^verbatim>\<open>str.lower\<close> leaves all three
  unchanged.
\<close>

definition lower_cp :: "nat \<Rightarrow> pystr" where
  "lower_cp c =
     (if (65 \<le> c \<and> c \<le> 90) \<or> (192 \<le> c \<and> c \<le> 222 \<and> c \<noteq> 215) then [c + 32] else [c])"

definition upper_cp :: "nat \<Rightarrow> pystr" where
  "upper_cp c =
     (if (97 \<le> c \<and> c \<le> 122) \<or> (224 \<le> c \<and> c \<le> 254 \<and> c \<noteq> 247) then [c - 32]
      else if c = 223 then [83, 83]
      else if c = 181 then [924]
      else if c = 255 then [376]
      else [c])"

definition latin1_lower :: "pystr \<Rightarrow> pystr" where
  "latin1_lower s = concat (map lower_cp s)"

definition latin1_upper :: "pystr \<Rightarrow> pystr" where
  "latin1_upper s = concat (map upper_cp s)"

definition is_ascii :: "pystr \<Rightarrow> bool" where
  "is_ascii s = list_all (\<lambda>c. c < 128) s"

text \<open>The index of the example of the specification, and one data set.\<close>

definition enron_url :: pystr where
  "enron_url = lit ''https://example/email-enron.json''"

definition index_text :: pystr where
  \<open>index_text = lit ''{"email-enron": {"url": "https://example/email-enron.json"}}''\<close>

definition index_value :: json where
  "index_value = JObj [(lit ''email-enron'', JObj [(lit ''url'', JStr enron_url)])]"

definition enron_text :: pystr where
  \<open>enron_text = lit ''{"edge-dict": {"0": ["1", "2", "3"]}}''\<close>

definition enron_value :: json where
  "enron_value =
     JObj [(lit ''edge-dict'', JObj [(lit ''0'', JArr [JStr (lit ''1''), JStr (lit ''2''), JStr (lit ''3'')])])]"

text \<open>The same data set as a response without spaces after the separators.\<close>

definition enron_compact_text :: pystr where
  \<open>enron_compact_text = lit ''{"edge-dict":{"0":["1","2","3"]}}''\<close>

text \<open>A second index, whose only key is the lowercase letter U+00DF.\<close>

definition eszett_index_text :: pystr where
  \<open>eszett_index_text = lit ''{"'' @ [223] @ lit ''": {"url": "https://example/email-enron.json"}}''\<close>

definition eszett_index_value :: json where
  "eszett_index_value = JObj [([223], JObj [(lit ''url'', JStr enron_url)])]"

definition mock_loads :: "pystr \<Rightarrow> error + json" where
  "mock_loads text =
     (if text = index_text then Inr index_value
      else if text = eszett_index_text then Inr eszett_index_value
      else if text = enron_text then Inr enron_value
      else if text = enron_compact_text then Inr enron_value
      else Inl JSONDecodeError)"

definition mock_dumps :: "json \<Rightarrow> pystr" where
  "mock_dumps v =
     (if v = index_value then index_text
      else if v = eszett_index_value then eszett_index_text
      else if v = enron_value then enron_text
      else lit ''null'')"

text \<open>The mock converter returns its arguments.\<close>

type_synonym mock_hypergraph = "json \<times> unit option \<times> unit option \<times> int option"

definition mock_env :: "(unit, mock_hypergraph) env" where
  "mock_env =
     \<lparr>str_lower = latin1_lower, str_upper = latin1_upper, py_str = (\<lambda>v. lit ''?''),
      json_loads = mock_loads, json_dumps = mock_dumps,
      dict_to_hypergraph = (\<lambda>data nodetype edgetype max_order.
         Inr (data, nodetype, edgetype, max_order))\<rparr>"

definition mock_remote :: "pystr \<Rightarrow> pystr \<Rightarrow> error + pystr" where
  "mock_remote index url =
     (if url = index_url then Inr index
      else if url = enron_url then Inr enron_text
      else Inl RequestException)"

text \<open>A remote that answers the GET of the data set with the compact text.\<close>

definition compact_remote :: "pystr \<Rightarrow> error + pystr" where
  "compact_remote url =
     (if url = index_url then Inr index_text
      else if url = enron_url then Inr enron_compact_text
      else Inl RequestException)"

text \<open>A world with no files, where every path may be read and written.\<close>

definition mock_world :: "pystr \<Rightarrow> world" where
  "mock_world index =
     \<lparr>remote = mock_remote index, fs = Map.empty, can_read = (\<lambda>p. True),
      can_write = (\<lambda>p. True), stdout = [], warnings = [], gets = []\<rparr>"

section \<open>Basic facts\<close>

lemma then_do_Inl [simp]: "then_do (Inl e, w) f = (Inl e, w)"
  by (simp add: then_do_def)

lemma then_do_Inr [simp]: "then_do (Inr x, w) f = f x w"
  by (simp add: then_do_def)

lemma get_json_eq:
  "get_json L url w =
     ((case url of
         JStr u \<Rightarrow> (case remote w u of Inl e \<Rightarrow> Inl e | Inr body \<Rightarrow> json_loads L body)
       | _ \<Rightarrow> Inl RequestException),
      w\<lparr>gets := gets w @ [url]\<rparr>)"
  by (simp add: get_json_def requests_get_def then_do_def split: json.splits sum.splits)

text \<open>The helper on a name that is not a key of the index.\<close>

lemma request_absent:
  assumes "remote w index_url = Inr body"
    and "json_loads L body = Inr (JObj kvs)"
    and "str_lower L dataset \<notin> fst ` set kvs"
  shows "request_from_xgi_data L dataset w =
     (Inl not_found,
      w\<lparr>gets := gets w @ [JStr index_url],
        stdout := stdout w @ lit ''Valid dataset names:'' @ newline
                   @ join_str newline (map fst kvs) @ newline\<rparr>)"
  using assms
  by (simp add: request_from_xgi_data_def get_json_eq py_print_def to_str_def comp_def)

text \<open>Evaluation of the mock environment.\<close>

lemma urls_neq: "enron_url \<noteq> index_url" "index_url \<noteq> enron_url"
  by (simp_all add: enron_url_def index_url_def lit_def)

lemma texts_neq:
  "index_text \<noteq> enron_text" "index_text \<noteq> eszett_index_text"
  "eszett_index_text \<noteq> enron_text"
  by (simp_all add: index_text_def enron_text_def eszett_index_text_def lit_def)

lemma compact_text_neq:
  "enron_compact_text \<noteq> index_text" "enron_compact_text \<noteq> eszett_index_text"
  "enron_compact_text \<noteq> enron_text" "enron_text \<noteq> enron_compact_text"
  by (simp_all add: index_text_def enron_text_def eszett_index_text_def enron_compact_text_def
      lit_def)

lemma mock_loads_simps:
  "mock_loads index_text = Inr index_value"
  "mock_loads eszett_index_text = Inr eszett_index_value"
  "mock_loads enron_text = Inr enron_value"
  "mock_loads enron_compact_text = Inr enron_value"
  using texts_neq compact_text_neq by (auto simp add: mock_loads_def)

lemma mock_env_simps [simp]:
  "str_lower mock_env = latin1_lower" "str_upper mock_env = latin1_upper"
  "json_loads mock_env = mock_loads" "json_dumps mock_env = mock_dumps"
  "dict_to_hypergraph mock_env d n e m = Inr (d, n, e, m)"
  by (simp_all add: mock_env_def)

lemma mock_world_simps [simp]:
  "remote (mock_world i) = mock_remote i" "fs (mock_world i) = Map.empty"
  "can_read (mock_world i) p" "can_write (mock_world i) p"
  "stdout (mock_world i) = []" "warnings (mock_world i) = []" "gets (mock_world i) = []"
  by (simp_all add: mock_world_def)

lemma mock_remote_simps:
  "mock_remote i index_url = Inr i" "mock_remote i enron_url = Inr enron_text"
  using urls_neq by (simp_all add: mock_remote_def)

lemma compact_remote_simps:
  "compact_remote index_url = Inr index_text" "compact_remote enron_url = Inr enron_compact_text"
  using urls_neq by (simp_all add: compact_remote_def)

lemma lower_foo: "latin1_lower (lit ''foo'') = lit ''foo''"
  by (simp add: latin1_lower_def lower_cp_def lit_def)

text \<open>What the helper leaves alone, and which GETs it makes.\<close>

lemma request_frame:
  assumes "request_from_xgi_data L dataset w = (r, w')"
  shows "fs w' = fs w" "can_read w' = can_read w" "can_write w' = can_write w"
    "remote w' = remote w" "warnings w' = warnings w"
  using assms
  by (auto simp add: request_from_xgi_data_def get_json_eq py_print_def Let_def then_do_def
      split: sum.splits bool.splits json.splits)

lemma request_gets:
  assumes "request_from_xgi_data L dataset w = (r, w')"
  shows "gets w' = gets w @ [JStr index_url] \<or> (\<exists>url. gets w' = gets w @ [JStr index_url, url])"
  using assms
  by (auto simp add: request_from_xgi_data_def get_json_eq py_print_def Let_def then_do_def
      split: sum.splits bool.splits json.splits)

lemma request_found:
  assumes "remote w index_url = Inr ibody"
    and "json_loads L ibody = Inr (JObj kvs)"
    and "map_of kvs (str_lower L dataset) = Some entry"
    and "py_getitem entry (lit ''url'') = Inr url"
  shows "request_from_xgi_data L dataset w = get_json L url (w\<lparr>gets := gets w @ [JStr index_url]\<rparr>)"
proof -
  have "str_lower L dataset \<in> fst ` set kvs"
    using assms(3) by (metis map_of_eq_None_iff option.distinct(1))
  then show ?thesis
    using assms by (simp add: request_from_xgi_data_def get_json_eq)
qed

lemma load_hit:
  assumes "fs w (cache_path path dataset) = Some n"
  shows "load_xgi_data L dataset path True nodetype edgetype max_order w =
     ((case n of
         File text \<Rightarrow>
           if can_read w (cache_path path dataset)
           then (case json_loads L text of
                   Inl e \<Rightarrow> Inl e
                 | Inr data \<Rightarrow> dict_to_hypergraph L data nodetype edgetype max_order)
           else Inl OSError
       | Dir \<Rightarrow> Inl OSError), w)"
  using assms
  by (simp add: load_xgi_data_def os_path_exists_def open_read_def
      split: node.splits sum.splits)

lemma load_miss:
  assumes "fs w (cache_path path dataset) = None"
  shows "load_xgi_data L dataset path True nodetype edgetype max_order w =
     then_do (request_from_xgi_data L dataset (warn (no_local_copy (cache_path path dataset)) w))
       (\<lambda>data w'. (dict_to_hypergraph L data nodetype edgetype max_order, w'))"
  using assms by (simp add: load_xgi_data_def os_path_exists_def)

lemma download_ok:
  assumes "request_from_xgi_data L dataset w = (Inr data, w1)"
    and "can_write w (cache_path path dataset)"
    and "fs w (cache_path path dataset) \<noteq> Some Dir"
  shows "download_xgi_data L dataset path w =
     (Inr (), w1\<lparr>fs := (fs w)(cache_path path dataset \<mapsto> File (json_dumps L data))\<rparr>)"
  using assms request_frame [OF assms(1)]
  by (simp add: download_xgi_data_def open_write_def file_write_def)

lemma download_fail:
  assumes "request_from_xgi_data L dataset w = (Inl e, w1)"
  shows "download_xgi_data L dataset path w = (Inl e, w1)"
  using assms by (simp add: download_xgi_data_def)

lemma snd_then_do_pure: "snd (then_do m (\<lambda>x w'. (g x, w'))) = snd m"
  by (cases m) (auto simp add: then_do_def split: sum.splits)

lemma fst_then_do_pure:
  "fst (then_do m (\<lambda>x w'. (g x, w'))) = (case fst m of Inl e \<Rightarrow> Inl e | Inr x \<Rightarrow> g x)"
  by (cases m) (auto simp add: then_do_def split: sum.splits)

lemma warn_simps [simp]:
  "fs (warn m w) = fs w" "remote (warn m w) = remote w" "gets (warn m w) = gets w"
  "can_read (warn m w) = can_read w" "can_write (warn m w) = can_write w"
  "stdout (warn m w) = stdout w" "warnings (warn m w) = warnings w @ [m]"
  by (simp_all add: warn_def)

text \<open>The helper on the mock environment.\<close>

lemma mock_request_absent:
  assumes "remote w = mock_remote index_text"
  shows "request_from_xgi_data mock_env (lit ''foo'') w =
     (Inl not_found,
      w\<lparr>gets := gets w @ [JStr index_url],
        stdout := stdout w @ lit ''Valid dataset names:'' @ newline @ lit ''email-enron'' @ newline\<rparr>)"
  using request_absent [of w index_text mock_env
      "[(lit ''email-enron'', JObj [(lit ''url'', JStr enron_url)])]" "lit ''foo''"] assms
  by (simp add: mock_remote_simps mock_loads_simps index_value_def lower_foo)
     (simp add: lit_def)

lemma mock_request_enron:
  assumes "remote w = mock_remote index_text"
    and "latin1_lower name = lit ''email-enron''"
  shows "request_from_xgi_data mock_env name w =
     (Inr enron_value, w\<lparr>gets := gets w @ [JStr index_url, JStr enron_url]\<rparr>)"
  using request_found [of w index_text mock_env
      "[(lit ''email-enron'', JObj [(lit ''url'', JStr enron_url)])]" name
      "JObj [(lit ''url'', JStr enron_url)]" "JStr enron_url"] assms
  by (simp add: mock_remote_simps mock_loads_simps index_value_def get_json_eq)

lemma mock_request_compact:
  assumes "remote w = compact_remote"
    and "latin1_lower name = lit ''email-enron''"
  shows "request_from_xgi_data mock_env name w =
     (Inr enron_value, w\<lparr>gets := gets w @ [JStr index_url, JStr enron_url]\<rparr>)"
  using request_found [of w index_text mock_env
      "[(lit ''email-enron'', JObj [(lit ''url'', JStr enron_url)])]" name
      "JObj [(lit ''url'', JStr enron_url)]" "JStr enron_url"] assms
  by (simp add: compact_remote_simps mock_loads_simps index_value_def get_json_eq)

lemma lower_enron:
  "latin1_lower (lit ''email-enron'') = lit ''email-enron''"
  "latin1_lower (lit ''Email-Enron'') = lit ''email-enron''"
  "latin1_lower (lit ''EMAIL-ENRON'') = lit ''email-enron''"
  "latin1_upper (lit ''email-enron'') = lit ''EMAIL-ENRON''"
  by (simp_all add: latin1_lower_def latin1_upper_def lower_cp_def upper_cp_def lit_def)

lemma eszett_cases:
  "latin1_lower [223] = [223]" "latin1_upper [223] = lit ''SS''"
  "latin1_lower (lit ''SS'') = lit ''ss''"
  by (simp_all add: latin1_lower_def latin1_upper_def lower_cp_def upper_cp_def lit_def)

lemma mock_request_eszett:
  assumes "remote w = mock_remote eszett_index_text"
  shows "request_from_xgi_data mock_env [223] w =
     (Inr enron_value, w\<lparr>gets := gets w @ [JStr index_url, JStr enron_url]\<rparr>)"
    and "request_from_xgi_data mock_env (lit ''SS'') w =
     (Inl not_found,
      w\<lparr>gets := gets w @ [JStr index_url],
        stdout := stdout w @ lit ''Valid dataset names:'' @ newline @ [223] @ newline\<rparr>)"
proof -
  show "request_from_xgi_data mock_env [223] w =
     (Inr enron_value, w\<lparr>gets := gets w @ [JStr index_url, JStr enron_url]\<rparr>)"
    using request_found [of w eszett_index_text mock_env
      "[([223], JObj [(lit ''url'', JStr enron_url)])]" "[223]"
      "JObj [(lit ''url'', JStr enron_url)]" "JStr enron_url"] assms
    by (simp add: mock_remote_simps mock_loads_simps eszett_index_value_def get_json_eq
        eszett_cases)
  show "request_from_xgi_data mock_env (lit ''SS'') w =
     (Inl not_found,
      w\<lparr>gets := gets w @ [JStr index_url],
        stdout := stdout w @ lit ''Valid dataset names:'' @ newline @ [223] @ newline\<rparr>)"
    using request_absent [of w eszett_index_text mock_env
      "[([223], JObj [(lit ''url'', JStr enron_url)])]" "lit ''SS''"] assms
    by (simp add: mock_remote_simps mock_loads_simps eszett_index_value_def eszett_cases)
       (simp add: lit_def)
qed

text \<open>The GETs of the helper, in every case.\<close>

lemma request_gets_exact:
  "gets (snd (request_from_xgi_data L dataset w)) =
     gets w @ JStr index_url #
       (case remote w index_url of
          Inl e \<Rightarrow> []
        | Inr ibody \<Rightarrow>
            (case json_loads L ibody of
               Inl e \<Rightarrow> []
             | Inr index \<Rightarrow>
                 (case py_contains index (str_lower L dataset) of
                    Inr True \<Rightarrow>
                      (case py_getitem index (str_lower L dataset) of
                         Inl e \<Rightarrow> []
                       | Inr entry \<Rightarrow>
                           (case py_getitem entry (lit ''url'') of
                              Inl e \<Rightarrow> []
                            | Inr url \<Rightarrow> [url]))
                  | _ \<Rightarrow> [])))"
  by (simp add: request_from_xgi_data_def get_json_eq py_print_def Let_def
      split: sum.splits bool.splits)

lemma request_warnings:
  "warnings (snd (request_from_xgi_data L dataset w)) = warnings w"
  using request_frame(5) [of L dataset w] by (cases "request_from_xgi_data L dataset w") simp

text \<open>On ASCII strings, lowercasing undoes uppercasing (in the mock case mappings).\<close>

lemma ascii_lower_upper:
  assumes "is_ascii s"
  shows "latin1_lower (latin1_upper s) = latin1_lower s"
  using assms
proof (induction s)
  case Nil
  then show ?case by (simp add: latin1_lower_def latin1_upper_def)
next
  case (Cons c s)
  then have "c < 128" and "is_ascii s" by (simp_all add: is_ascii_def)
  then have "concat (map lower_cp (upper_cp c)) = lower_cp c"
    by (auto simp add: lower_cp_def upper_cp_def)
  with Cons.IH \<open>is_ascii s\<close> show ?case
    by (simp add: latin1_lower_def latin1_upper_def)
qed

section \<open>The remote fetch helper\<close>

text \<open>
  C1. When the index has been fetched and parsed as a dict and the lowercased name is not
  one of its keys, \<^verbatim>\<open>_request_from_xgi_data\<close> raises the \<open>XGIError\<close> "Must choose a
  valid dataset name!". Before that it prints the line "Valid dataset names:" and then the
  keys of the index, in the order of the index, one per line. The only other change of
  the world is the record of the GET of the index: files, warnings and the remote are as
  before.
\<close>

theorem request_unknown_name:
  assumes "remote w index_url = Inr body"
    and "json_loads L body = Inr (JObj kvs)"
    and "str_lower L dataset \<notin> fst ` set kvs"
  shows "request_from_xgi_data L dataset w =
     (Inl (XGIError (lit ''Must choose a valid dataset name!'')),
      w\<lparr>gets := gets w @ [JStr index_url],
        stdout := stdout w @ lit ''Valid dataset names:'' @ newline
                   @ join_str newline (map fst kvs) @ newline\<rparr>)"
  using request_absent [OF assms] by (simp add: not_found_def)

theorem request_unknown_name_witness:
  "remote (mock_world index_text) index_url = Inr index_text \<and>
   json_loads mock_env index_text =
     Inr (JObj [(lit ''email-enron'', JObj [(lit ''url'', JStr enron_url)])]) \<and>
   str_lower mock_env (lit ''foo'')
     \<notin> fst ` set [(lit ''email-enron'', JObj [(lit ''url'', JStr enron_url)])] \<and>
   request_from_xgi_data mock_env (lit ''foo'') (mock_world index_text) =
     (Inl (XGIError (lit ''Must choose a valid dataset name!'')),
      (mock_world index_text)\<lparr>gets := [JStr index_url],
        stdout := lit ''Valid dataset names:'' @ newline @ lit ''email-enron'' @ newline\<rparr>)"
  using request_unknown_name [of "mock_world index_text" index_text mock_env
      "[(lit ''email-enron'', JObj [(lit ''url'', JStr enron_url)])]" "lit ''foo''"]
  by (simp add: mock_remote_simps mock_loads_simps index_value_def lower_foo)
     (simp add: lit_def)

lemma cache_path_simps:
  "cache_path [] (lit ''foo'') = lit ''foo.json''"
  "cache_path (lit ''/tmp'') (lit ''foo'') = lit ''/tmp/foo.json''"
  "cache_path [] (lit ''email-enron'') = lit ''email-enron.json''"
  "cache_path [] (lit ''Email-Enron'') = lit ''Email-Enron.json''"
  by (simp_all add: cache_path_def os_path_join_def lit_def)

section \<open>Loading from the local copy\<close>

text \<open>
  C2. When \<^verbatim>\<open>read\<close> is true and something exists at
  \<^verbatim>\<open>os.path.join(path, dataset + '.json')\<close>, \<^verbatim>\<open>load_xgi_data\<close> leaves the world as
  it was, whatever it returns: \<^verbatim>\<open>requests.get\<close> is not called at all, neither for
  the index nor for a data set. When what exists is a file that may be read, the text of
  that file is parsed and the result handed to the converter.
\<close>

theorem load_cache_hit:
  assumes "fs w (cache_path path dataset) = Some n"
  shows "snd (load_xgi_data L dataset path True nodetype edgetype max_order w) = w
     \<and> gets (snd (load_xgi_data L dataset path True nodetype edgetype max_order w)) = gets w
     \<and> (n = File text \<and> can_read w (cache_path path dataset)
        \<longrightarrow> fst (load_xgi_data L dataset path True nodetype edgetype max_order w)
             = (case json_loads L text of
                  Inl e \<Rightarrow> Inl e
                | Inr data \<Rightarrow> dict_to_hypergraph L data nodetype edgetype max_order))"
  using load_hit [OF assms, of L nodetype edgetype max_order] by simp

theorem load_cache_hit_witness:
  "fs ((mock_world index_text)\<lparr>fs := [lit ''foo.json'' \<mapsto> File enron_text]\<rparr>)
      (cache_path [] (lit ''foo'')) = Some (File enron_text) \<and>
   can_read ((mock_world index_text)\<lparr>fs := [lit ''foo.json'' \<mapsto> File enron_text]\<rparr>)
      (cache_path [] (lit ''foo'')) \<and>
   snd (load_xgi_data mock_env (lit ''foo'') [] True None None None
      ((mock_world index_text)\<lparr>fs := [lit ''foo.json'' \<mapsto> File enron_text]\<rparr>))
     = (mock_world index_text)\<lparr>fs := [lit ''foo.json'' \<mapsto> File enron_text]\<rparr> \<and>
   gets (snd (load_xgi_data mock_env (lit ''foo'') [] True None None None
      ((mock_world index_text)\<lparr>fs := [lit ''foo.json'' \<mapsto> File enron_text]\<rparr>))) = [] \<and>
   fst (load_xgi_data mock_env (lit ''foo'') [] True None None None
      ((mock_world index_text)\<lparr>fs := [lit ''foo.json'' \<mapsto> File enron_text]\<rparr>))
     = Inr (enron_value, None, None, None)"
  using load_cache_hit [of "(mock_world index_text)\<lparr>fs := [lit ''foo.json'' \<mapsto> File enron_text]\<rparr>"
      "[]" "lit ''foo''" "File enron_text" mock_env None None None enron_text]
  by (simp add: cache_path_simps mock_loads_simps)

section \<open>Downloading\<close>

text \<open>
  C5. When the lowercased name is not a key of the fetched index,
  \<^verbatim>\<open>download_xgi_data\<close> raises the \<open>XGIError\<close> of the helper and the file system is as
  before: nothing is created or changed at \<^verbatim>\<open>os.path.join(path, dataset + '.json')\<close>
  or anywhere else. The witness is \<^verbatim>\<open>download("foo", "/tmp")\<close>: afterwards there is
  no file \<^verbatim>\<open>/tmp/foo.json\<close>.
\<close>

theorem download_unknown_name:
  assumes "remote w index_url = Inr body"
    and "json_loads L body = Inr (JObj kvs)"
    and "str_lower L dataset \<notin> fst ` set kvs"
  shows "fst (download_xgi_data L dataset path w)
           = Inl (XGIError (lit ''Must choose a valid dataset name!''))
     \<and> fs (snd (download_xgi_data L dataset path w)) = fs w"
  using download_fail [OF request_absent [OF assms]] by (simp add: not_found_def)

theorem download_unknown_name_witness:
  "remote (mock_world index_text) index_url = Inr index_text \<and>
   json_loads mock_env index_text =
     Inr (JObj [(lit ''email-enron'', JObj [(lit ''url'', JStr enron_url)])]) \<and>
   str_lower mock_env (lit ''foo'')
     \<notin> fst ` set [(lit ''email-enron'', JObj [(lit ''url'', JStr enron_url)])] \<and>
   fst (download_xgi_data mock_env (lit ''foo'') (lit ''/tmp'') (mock_world index_text))
     = Inl (XGIError (lit ''Must choose a valid dataset name!'')) \<and>
   fs (snd (download_xgi_data mock_env (lit ''foo'') (lit ''/tmp'') (mock_world index_text)))
     (lit ''/tmp/foo.json'') = None"
  using download_unknown_name [of "mock_world index_text" index_text mock_env
      "[(lit ''email-enron'', JObj [(lit ''url'', JStr enron_url)])]" "lit ''foo''" "lit ''/tmp''"]
  by (simp add: mock_remote_simps mock_loads_simps index_value_def lower_foo)
     (simp add: lit_def)

section \<open>Case of the name\<close>

text \<open>
  C3 (amended). The helper uses the name only through \<^verbatim>\<open>dataset.lower()\<close>. So for
  every name whose uppercased form has the same lowercase form as the name itself,
  \<^verbatim>\<open>lower(upper(name)) = lower(name)\<close>, as it is for every ASCII name
  (\<open>ascii_lower_upper\<close>), the helper called with the uppercased name and the helper
  called with the name give the same result and the same world.
\<close>

theorem request_case_insensitive:
  assumes "str_lower L (str_upper L name) = str_lower L name"
  shows "request_from_xgi_data L (str_upper L name) w = request_from_xgi_data L name w"
  using assms by (simp add: request_from_xgi_data_def)

theorem request_case_insensitive_witness:
  "str_lower mock_env (str_upper mock_env (lit ''email-enron''))
     = str_lower mock_env (lit ''email-enron'') \<and>
   request_from_xgi_data mock_env (str_upper mock_env (lit ''email-enron'')) (mock_world index_text)
     = request_from_xgi_data mock_env (lit ''email-enron'') (mock_world index_text) \<and>
   request_from_xgi_data mock_env (lit ''email-enron'') (mock_world index_text)
     = (Inr enron_value, (mock_world index_text)\<lparr>gets := [JStr index_url, JStr enron_url]\<rparr>)"
  using request_case_insensitive [of mock_env "lit ''email-enron''" "mock_world index_text"]
    mock_request_enron [of "mock_world index_text" "lit ''email-enron''"]
  by (simp add: lower_enron)

text \<open>
  C3 as stated fails where uppercasing is not undone by lowercasing. The index has the one
  key U+00DF, which is lowercase. The name U+00DF is found; its uppercased form is
  \<^verbatim>\<open>SS\<close>, which is looked up as \<^verbatim>\<open>ss\<close> and is not a key.
\<close>

theorem request_case_insensitive_counterexample:
  "str_lower mock_env [223] \<in> fst ` set [([223], JObj [(lit ''url'', JStr enron_url)])] \<and>
   json_loads mock_env eszett_index_text
     = Inr (JObj [([223], JObj [(lit ''url'', JStr enron_url)])]) \<and>
   fst (request_from_xgi_data mock_env [223] (mock_world eszett_index_text)) = Inr enron_value \<and>
   str_upper mock_env [223] = lit ''SS'' \<and>
   fst (request_from_xgi_data mock_env (str_upper mock_env [223]) (mock_world eszett_index_text))
     = Inl (XGIError (lit ''Must choose a valid dataset name!'')) \<and>
   request_from_xgi_data mock_env (str_upper mock_env [223]) (mock_world eszett_index_text)
     \<noteq> request_from_xgi_data mock_env [223] (mock_world eszett_index_text)"
  using mock_request_eszett [of "mock_world eszett_index_text"]
  by (simp add: eszett_cases mock_loads_simps eszett_index_value_def not_found_def)

section \<open>Failure of the download\<close>

text \<open>
  C9. \<^verbatim>\<open>download_xgi_data\<close> opens the destination only after the helper has returned
  the data. When the helper raises, for whatever reason (the GET of the index, its
  parsing, the lookup of the name, the GET of the data set or its parsing), the download
  raises the same exception and the file system is exactly as before; a file that was at
  the destination keeps its content.
\<close>

theorem download_failure_keeps_files:
  assumes "fst (request_from_xgi_data L dataset w) = Inl e"
  shows "fst (download_xgi_data L dataset path w) = Inl e
     \<and> fs (snd (download_xgi_data L dataset path w)) = fs w"
proof -
  obtain w1 where r: "request_from_xgi_data L dataset w = (Inl e, w1)"
    using assms by (cases "request_from_xgi_data L dataset w") simp
  show ?thesis
    using download_fail [OF r] request_frame(1) [OF r] by simp
qed

theorem download_failure_keeps_files_witness:
  "fst (request_from_xgi_data mock_env (lit ''foo'')
      ((mock_world index_text)\<lparr>fs := [lit ''foo.json'' \<mapsto> File enron_text]\<rparr>)) = Inl not_found \<and>
   fst (download_xgi_data mock_env (lit ''foo'') []
      ((mock_world index_text)\<lparr>fs := [lit ''foo.json'' \<mapsto> File enron_text]\<rparr>)) = Inl not_found \<and>
   fs (snd (download_xgi_data mock_env (lit ''foo'') []
      ((mock_world index_text)\<lparr>fs := [lit ''foo.json'' \<mapsto> File enron_text]\<rparr>)))
     (cache_path [] (lit ''foo'')) = Some (File enron_text)"
  using download_failure_keeps_files [of mock_env "lit ''foo''"
      "(mock_world index_text)\<lparr>fs := [lit ''foo.json'' \<mapsto> File enron_text]\<rparr>" not_found "[]"]
    mock_request_absent [of "(mock_world index_text)\<lparr>fs := [lit ''foo.json'' \<mapsto> File enron_text]\<rparr>"]
  by (simp add: cache_path_simps)

section \<open>No validation of a cached name\<close>

text \<open>
  C10. When \<^verbatim>\<open>read\<close> is true, the cache file exists, may be read and parses as JSON,
  \<^verbatim>\<open>load_xgi_data\<close> returns what the converter returns on the parsed content and
  leaves the world unchanged: the index is not fetched and the exception of an unknown
  name cannot arise from it. This holds whatever the remote index contains, also when
  the helper, called with the same name, would raise "Must choose a valid dataset name!".
\<close>

theorem load_ignores_index_on_hit:
  assumes "fs w (cache_path path dataset) = Some (File text)"
    and "can_read w (cache_path path dataset)"
    and "json_loads L text = Inr data"
  shows "load_xgi_data L dataset path True nodetype edgetype max_order w
           = (dict_to_hypergraph L data nodetype edgetype max_order, w)
     \<and> (remote w index_url = Inr body \<and> json_loads L body = Inr (JObj kvs)
          \<and> str_lower L dataset \<notin> fst ` set kvs
        \<longrightarrow> fst (request_from_xgi_data L dataset w) = Inl not_found)"
  using load_hit [OF assms(1), of L nodetype edgetype max_order] assms(2,3)
    request_absent [of w body L kvs dataset]
  by simp

theorem load_ignores_index_on_hit_witness:
  "fs ((mock_world index_text)\<lparr>fs := [lit ''foo.json'' \<mapsto> File enron_text]\<rparr>)
      (cache_path [] (lit ''foo'')) = Some (File enron_text) \<and>
   can_read ((mock_world index_text)\<lparr>fs := [lit ''foo.json'' \<mapsto> File enron_text]\<rparr>)
      (cache_path [] (lit ''foo'')) \<and>
   json_loads mock_env enron_text = Inr enron_value \<and>
   remote ((mock_world index_text)\<lparr>fs := [lit ''foo.json'' \<mapsto> File enron_text]\<rparr>) index_url
     = Inr index_text \<and>
   json_loads mock_env index_text
     = Inr (JObj [(lit ''email-enron'', JObj [(lit ''url'', JStr enron_url)])]) \<and>
   str_lower mock_env (lit ''foo'')
     \<notin> fst ` set [(lit ''email-enron'', JObj [(lit ''url'', JStr enron_url)])] \<and>
   load_xgi_data mock_env (lit ''foo'') [] True None None None
      ((mock_world index_text)\<lparr>fs := [lit ''foo.json'' \<mapsto> File enron_text]\<rparr>)
     = (Inr (enron_value, None, None, None),
        (mock_world index_text)\<lparr>fs := [lit ''foo.json'' \<mapsto> File enron_text]\<rparr>) \<and>
   fst (request_from_xgi_data mock_env (lit ''foo'')
      ((mock_world index_text)\<lparr>fs := [lit ''foo.json'' \<mapsto> File enron_text]\<rparr>)) = Inl not_found"
  using load_ignores_index_on_hit [of "(mock_world index_text)\<lparr>fs := [lit ''foo.json'' \<mapsto> File enron_text]\<rparr>"
      "[]" "lit ''foo''" enron_text mock_env enron_value None None None index_text
      "[(lit ''email-enron'', JObj [(lit ''url'', JStr enron_url)])]"]
  by (simp add: cache_path_simps mock_loads_simps mock_remote_simps index_value_def lower_foo)
     (simp add: lit_def)

section \<open>Download, then load\<close>

text \<open>
  C4. Suppose the helper, called by \<^verbatim>\<open>download_xgi_data\<close>, returns the data
  \<open>data\<close> (so the name is in the index and both GETs succeeded), the destination may be
  written and read and is not a directory, and the JSON codec restores \<open>data\<close> from its
  serialisation. Then the download succeeds, and \<^verbatim>\<open>load_xgi_data\<close> with the same
  name and directory and \<^verbatim>\<open>read=True\<close>, run in the world the download left, returns
  what the converter returns on \<open>data\<close> with the same \<^verbatim>\<open>nodetype\<close>,
  \<^verbatim>\<open>edgetype\<close> and \<^verbatim>\<open>max_order\<close>, and changes nothing.
\<close>

theorem download_then_load:
  assumes "request_from_xgi_data L dataset w = (Inr data, w1)"
    and "can_write w (cache_path path dataset)"
    and "fs w (cache_path path dataset) \<noteq> Some Dir"
    and "can_read w (cache_path path dataset)"
    and "json_loads L (json_dumps L data) = Inr data"
  shows "fst (download_xgi_data L dataset path w) = Inr ()
     \<and> load_xgi_data L dataset path True nodetype edgetype max_order
           (snd (download_xgi_data L dataset path w))
         = (dict_to_hypergraph L data nodetype edgetype max_order,
            snd (download_xgi_data L dataset path w))"
proof -
  let ?cfp = "cache_path path dataset"
  let ?w2 = "w1\<lparr>fs := (fs w)(?cfp \<mapsto> File (json_dumps L data))\<rparr>"
  have d: "download_xgi_data L dataset path w = (Inr (), ?w2)"
    using assms(1-3) by (rule download_ok)
  have "can_read w1 = can_read w"
    using assms(1) by (rule request_frame(2))
  then have "can_read ?w2 ?cfp"
    using assms(4) by simp
  moreover have "fs ?w2 ?cfp = Some (File (json_dumps L data))"
    by simp
  ultimately have "load_xgi_data L dataset path True nodetype edgetype max_order ?w2
      = (dict_to_hypergraph L data nodetype edgetype max_order, ?w2)"
    using load_hit [of ?w2 path dataset "File (json_dumps L data)" L nodetype edgetype max_order]
      assms(5)
    by simp
  with d show ?thesis by simp
qed

text \<open>The mock serialiser on the data set.\<close>

lemma mock_dumps_enron: "mock_dumps enron_value = enron_text"
  by (simp add: mock_dumps_def enron_value_def index_value_def eszett_index_value_def)

theorem download_then_load_witness:
  "request_from_xgi_data mock_env (lit ''email-enron'') (mock_world index_text)
     = (Inr enron_value, (mock_world index_text)\<lparr>gets := [JStr index_url, JStr enron_url]\<rparr>) \<and>
   can_write (mock_world index_text) (cache_path [] (lit ''email-enron'')) \<and>
   fs (mock_world index_text) (cache_path [] (lit ''email-enron'')) \<noteq> Some Dir \<and>
   can_read (mock_world index_text) (cache_path [] (lit ''email-enron'')) \<and>
   json_loads mock_env (json_dumps mock_env enron_value) = Inr enron_value \<and>
   fst (download_xgi_data mock_env (lit ''email-enron'') [] (mock_world index_text)) = Inr () \<and>
   fst (load_xgi_data mock_env (lit ''email-enron'') [] True None None None
         (snd (download_xgi_data mock_env (lit ''email-enron'') [] (mock_world index_text))))
     = Inr (enron_value, None, None, None)"
  using download_then_load [of mock_env "lit ''email-enron''" "mock_world index_text" enron_value
      "(mock_world index_text)\<lparr>gets := [JStr index_url, JStr enron_url]\<rparr>" "[]" None None None]
    mock_request_enron [of "mock_world index_text" "lit ''email-enron''"]
  by (simp add: lower_enron mock_dumps_enron mock_loads_simps)

section \<open>What the download writes\<close>

text \<open>
  C7 (amended). Suppose the index is fetched and parsed as a dict, the lowercased name is
  a key whose entry has the string \<open>u\<close> under \<^verbatim>\<open>"url"\<close>, the GET of \<open>u\<close> answers
  the text \<open>body\<close>, which parses to \<open>data\<close>, and the destination may be written and is
  not a directory. Then \<^verbatim>\<open>download_xgi_data\<close> succeeds, and afterwards the file at
  \<^verbatim>\<open>os.path.join(path, dataset + '.json')\<close> holds the serialisation of \<open>data\<close> by
  \<^verbatim>\<open>json.dump\<close>: the response after one parse and one dump, not the text of the
  response itself. Whatever was at that path before is replaced. No other file changes;
  the two GETs are recorded.
\<close>

theorem download_writes_dump:
  assumes "remote w index_url = Inr ibody"
    and "json_loads L ibody = Inr (JObj kvs)"
    and "map_of kvs (str_lower L dataset) = Some entry"
    and "py_getitem entry (lit ''url'') = Inr (JStr u)"
    and "remote w u = Inr body"
    and "json_loads L body = Inr data"
    and "can_write w (cache_path path dataset)"
    and "fs w (cache_path path dataset) \<noteq> Some Dir"
  shows "download_xgi_data L dataset path w =
     (Inr (),
      w\<lparr>gets := gets w @ [JStr index_url, JStr u],
        fs := (fs w)(os_path_join path (dataset @ lit ''.json'')
                 \<mapsto> File (json_dumps L data))\<rparr>)"
proof -
  have "request_from_xgi_data L dataset w
      = (Inr data, w\<lparr>gets := gets w @ [JStr index_url, JStr u]\<rparr>)"
    using request_found [OF assms(1-4)] assms(5,6) by (simp add: get_json_eq)
  from download_ok [OF this assms(7,8)] show ?thesis
    by (simp add: cache_path_def)
qed

theorem download_writes_dump_witness:
  "remote ((mock_world index_text)\<lparr>fs := [lit ''email-enron.json'' \<mapsto> File index_text]\<rparr>) index_url
     = Inr index_text \<and>
   json_loads mock_env index_text
     = Inr (JObj [(lit ''email-enron'', JObj [(lit ''url'', JStr enron_url)])]) \<and>
   map_of [(lit ''email-enron'', JObj [(lit ''url'', JStr enron_url)])]
      (str_lower mock_env (lit ''email-enron'')) = Some (JObj [(lit ''url'', JStr enron_url)]) \<and>
   py_getitem (JObj [(lit ''url'', JStr enron_url)]) (lit ''url'') = Inr (JStr enron_url) \<and>
   remote ((mock_world index_text)\<lparr>fs := [lit ''email-enron.json'' \<mapsto> File index_text]\<rparr>) enron_url
     = Inr enron_text \<and>
   json_loads mock_env enron_text = Inr enron_value \<and>
   can_write ((mock_world index_text)\<lparr>fs := [lit ''email-enron.json'' \<mapsto> File index_text]\<rparr>)
      (cache_path [] (lit ''email-enron'')) \<and>
   fs ((mock_world index_text)\<lparr>fs := [lit ''email-enron.json'' \<mapsto> File index_text]\<rparr>)
      (cache_path [] (lit ''email-enron'')) = Some (File index_text) \<and>
   download_xgi_data mock_env (lit ''email-enron'') []
      ((mock_world index_text)\<lparr>fs := [lit ''email-enron.json'' \<mapsto> File index_text]\<rparr>) =
     (Inr (),
      (mock_world index_text)\<lparr>gets := [JStr index_url, JStr enron_url],
        fs := [lit ''email-enron.json'' \<mapsto> File enron_text]\<rparr>)"
  using download_writes_dump [of "(mock_world index_text)\<lparr>fs := [lit ''email-enron.json'' \<mapsto> File index_text]\<rparr>"
      index_text mock_env "[(lit ''email-enron'', JObj [(lit ''url'', JStr enron_url)])]"
      "lit ''email-enron''" "JObj [(lit ''url'', JStr enron_url)]" enron_url enron_text
      enron_value "[]"]
  by (simp add: mock_remote_simps mock_loads_simps index_value_def lower_enron cache_path_simps
      mock_dumps_enron)
     (simp add: cache_path_def os_path_join_def lit_def)

text \<open>
  C7 as stated fails: the text of the response is not written as it is. The remote answers
  with a text that has no spaces after the separators; the name is in the index and the
  download succeeds; the file then holds the text that \<^verbatim>\<open>json.dump\<close> produces
  for the parsed value, with \<^verbatim>\<open>", "\<close> and \<^verbatim>\<open>": "\<close> as separators, which
  is not the text of the response.
\<close>

theorem download_writes_dump_counterexample:
  "remote ((mock_world index_text)\<lparr>remote := compact_remote\<rparr>) index_url = Inr index_text \<and>
   json_loads mock_env index_text
     = Inr (JObj [(lit ''email-enron'', JObj [(lit ''url'', JStr enron_url)])]) \<and>
   remote ((mock_world index_text)\<lparr>remote := compact_remote\<rparr>) enron_url
     = Inr enron_compact_text \<and>
   json_loads mock_env enron_compact_text = Inr enron_value \<and>
   fst (download_xgi_data mock_env (lit ''email-enron'') []
      ((mock_world index_text)\<lparr>remote := compact_remote\<rparr>)) = Inr () \<and>
   fs (snd (download_xgi_data mock_env (lit ''email-enron'') []
      ((mock_world index_text)\<lparr>remote := compact_remote\<rparr>))) (lit ''email-enron.json'')
     = Some (File enron_text) \<and>
   enron_text \<noteq> enron_compact_text"
  using download_ok [of mock_env "lit ''email-enron''"
      "(mock_world index_text)\<lparr>remote := compact_remote\<rparr>" enron_value
      "(mock_world index_text)\<lparr>remote := compact_remote,
         gets := [JStr index_url, JStr enron_url]\<rparr>" "[]"]
    mock_request_compact [of "(mock_world index_text)\<lparr>remote := compact_remote\<rparr>"
      "lit ''email-enron''"]
  by (simp add: compact_remote_simps mock_loads_simps index_value_def lower_enron
      cache_path_simps mock_dumps_enron compact_text_neq)

section \<open>Loading without a local copy\<close>

text \<open>
  C6 (amended). When \<^verbatim>\<open>read\<close> is true and nothing exists at
  \<^verbatim>\<open>os.path.join(path, dataset + '.json')\<close>, \<^verbatim>\<open>load_xgi_data\<close> emits exactly one
  warning, the one that names this path, and makes exactly one GET of the index. Exactly
  one further GET follows it, of the data set, when the index is fetched and parsed, the
  lowercased name is in it and its entry has a \<^verbatim>\<open>"url"\<close>; the GETs are then the
  index and that URL, in this order. In every other case (the GET of the index fails, its
  text does not parse, the name is not in the index, the entry has no \<^verbatim>\<open>"url"\<close>) the
  index is the only GET.
\<close>

theorem load_cache_miss:
  assumes "fs w (cache_path path dataset) = None"
  shows "warnings (snd (load_xgi_data L dataset path True nodetype edgetype max_order w))
           = warnings w @ [no_local_copy (cache_path path dataset)]
     \<and> gets (snd (load_xgi_data L dataset path True nodetype edgetype max_order w))
           = gets w @ JStr index_url #
               (case remote w index_url of
                  Inl e \<Rightarrow> []
                | Inr ibody \<Rightarrow>
                    (case json_loads L ibody of
                       Inl e \<Rightarrow> []
                     | Inr index \<Rightarrow>
                         (case py_contains index (str_lower L dataset) of
                            Inr True \<Rightarrow>
                              (case py_getitem index (str_lower L dataset) of
                                 Inl e \<Rightarrow> []
                               | Inr entry \<Rightarrow>
                                   (case py_getitem entry (lit ''url'') of
                                      Inl e \<Rightarrow> []
                                    | Inr url \<Rightarrow> [url]))
                          | _ \<Rightarrow> [])))"
proof -
  let ?w0 = "warn (no_local_copy (cache_path path dataset)) w"
  let ?load = "load_xgi_data L dataset path True nodetype edgetype max_order w"
  have world: "snd ?load = snd (request_from_xgi_data L dataset ?w0)"
    using load_miss [OF assms, of L nodetype edgetype max_order]
    by (simp add: snd_then_do_pure)
  have one_warning: "warnings (snd ?load) = warnings w @ [no_local_copy (cache_path path dataset)]"
    using world request_warnings [of L dataset ?w0] by simp
  have "gets (snd ?load) = gets (snd (request_from_xgi_data L dataset ?w0))"
    using world by simp
  also have "\<dots> = gets ?w0 @ JStr index_url #
               (case remote ?w0 index_url of
                  Inl e \<Rightarrow> []
                | Inr ibody \<Rightarrow>
                    (case json_loads L ibody of
                       Inl e \<Rightarrow> []
                     | Inr index \<Rightarrow>
                         (case py_contains index (str_lower L dataset) of
                            Inr True \<Rightarrow>
                              (case py_getitem index (str_lower L dataset) of
                                 Inl e \<Rightarrow> []
                               | Inr entry \<Rightarrow>
                                   (case py_getitem entry (lit ''url'') of
                                      Inl e \<Rightarrow> []
                                    | Inr url \<Rightarrow> [url]))
                          | _ \<Rightarrow> [])))"
    by (rule request_gets_exact)
  finally show ?thesis
    using one_warning by simp
qed

text \<open>The example of the specification: \<^verbatim>\<open>load("email-Enron", "", True)\<close>.\<close>

lemma spec_example_name:
  "latin1_lower (lit ''email-Enron'') = lit ''email-enron''"
  "cache_path [] (lit ''email-Enron'') = lit ''email-Enron.json''"
  by (simp_all add: latin1_lower_def lower_cp_def cache_path_def os_path_join_def lit_def)

theorem load_cache_miss_witness:
  "fs (mock_world index_text) (cache_path [] (lit ''email-Enron'')) = None \<and>
   warnings (snd (load_xgi_data mock_env (lit ''email-Enron'') [] True None None None
      (mock_world index_text))) = [no_local_copy (lit ''email-Enron.json'')] \<and>
   gets (snd (load_xgi_data mock_env (lit ''email-Enron'') [] True None None None
      (mock_world index_text))) = [JStr index_url, JStr enron_url] \<and>
   fst (load_xgi_data mock_env (lit ''email-Enron'') [] True None None None
      (mock_world index_text)) = Inr (enron_value, None, None, None) \<and>
   fs (mock_world index_text) (cache_path [] (lit ''foo'')) = None \<and>
   warnings (snd (load_xgi_data mock_env (lit ''foo'') [] True None None None
      (mock_world index_text))) = [no_local_copy (lit ''foo.json'')] \<and>
   gets (snd (load_xgi_data mock_env (lit ''foo'') [] True None None None
      (mock_world index_text))) = [JStr index_url]"
proof -
  have enron_key: "lit ''email-enron'' \<in> set (map fst [(lit ''email-enron'', JObj [(lit ''url'', JStr enron_url)])])"
    by simp
  have foo_key: "lit ''foo'' \<notin> set (map fst [(lit ''email-enron'', JObj [(lit ''url'', JStr enron_url)])])"
    by (simp add: lit_def)
  show ?thesis
    using load_cache_miss [of "mock_world index_text" "[]" "lit ''email-Enron''" mock_env
        None None None]
      load_cache_miss [of "mock_world index_text" "[]" "lit ''foo''" mock_env None None None]
      load_miss [of "mock_world index_text" "[]" "lit ''email-Enron''" mock_env None None None]
      mock_request_enron [of "warn (no_local_copy (lit ''email-Enron.json'')) (mock_world index_text)"
        "lit ''email-Enron''"]
      enron_key foo_key
    by (simp add: spec_example_name cache_path_simps lower_foo mock_remote_simps
        mock_loads_simps index_value_def)
qed

text \<open>
  C6 as stated fails for a name that is not in the index: there is one warning and one
  GET, of the index, and no GET of a data set.
\<close>

theorem load_cache_miss_counterexample:
  "fs (mock_world index_text) (cache_path [] (lit ''foo'')) = None \<and>
   fst (load_xgi_data mock_env (lit ''foo'') [] True None None None (mock_world index_text))
     = Inl (XGIError (lit ''Must choose a valid dataset name!'')) \<and>
   warnings (snd (load_xgi_data mock_env (lit ''foo'') [] True None None None
      (mock_world index_text))) = [no_local_copy (lit ''foo.json'')] \<and>
   gets (snd (load_xgi_data mock_env (lit ''foo'') [] True None None None
      (mock_world index_text))) = [JStr index_url]"
  using load_miss [of "mock_world index_text" "[]" "lit ''foo''" mock_env None None None]
    mock_request_absent [of "warn (no_local_copy (lit ''foo.json'')) (mock_world index_text)"]
  by (simp add: cache_path_simps not_found_def)

section \<open>Case of the cache file\<close>

text \<open>
  C8. The path of the local copy is \<^verbatim>\<open>os.path.join(path, dataset + '.json')\<close> with
  the name as given, not lowercased; the file system is keyed by the path as written.
  Suppose nothing exists at that path while a file \<open>n\<close> exists at the path built from
  the lowercased name. Then \<^verbatim>\<open>load_xgi_data\<close> with \<^verbatim>\<open>read=True\<close> does not use
  \<open>n\<close>: it warns and calls the helper, so the index is fetched. And a download that
  succeeds writes the path with the name as given and leaves \<open>n\<close> as it is.
\<close>

theorem cache_path_verbatim:
  assumes "fs w (os_path_join path (dataset @ lit ''.json'')) = None"
    and "fs w (os_path_join path (str_lower L dataset @ lit ''.json'')) = Some n"
  shows "load_xgi_data L dataset path True nodetype edgetype max_order w =
       then_do
         (request_from_xgi_data L dataset
            (warn (no_local_copy (os_path_join path (dataset @ lit ''.json''))) w))
         (\<lambda>data w'. (dict_to_hypergraph L data nodetype edgetype max_order, w'))
     \<and> (\<exists>rest. gets (snd (load_xgi_data L dataset path True nodetype edgetype max_order w))
                 = gets w @ JStr index_url # rest)
     \<and> (request_from_xgi_data L dataset w = (Inr data, w1)
          \<and> can_write w (os_path_join path (dataset @ lit ''.json''))
        \<longrightarrow> fs (snd (download_xgi_data L dataset path w))
              = (fs w)(os_path_join path (dataset @ lit ''.json'') \<mapsto> File (json_dumps L data))
            \<and> fs (snd (download_xgi_data L dataset path w))
                 (os_path_join path (str_lower L dataset @ lit ''.json'')) = Some n)"
proof -
  let ?cfp = "cache_path path dataset"
  let ?load = "load_xgi_data L dataset path True nodetype edgetype max_order w"
  have miss: "fs w ?cfp = None"
    using assms(1) by (simp add: cache_path_def)
  have goes: "?load = then_do (request_from_xgi_data L dataset (warn (no_local_copy ?cfp) w))
         (\<lambda>data w'. (dict_to_hypergraph L data nodetype edgetype max_order, w'))"
    using miss by (rule load_miss)
  obtain r w' where req: "request_from_xgi_data L dataset (warn (no_local_copy ?cfp) w) = (r, w')"
    by (cases "request_from_xgi_data L dataset (warn (no_local_copy ?cfp) w)")
  have "snd ?load = w'"
    using goes req by (simp add: snd_then_do_pure)
  then have net: "\<exists>rest. gets (snd ?load) = gets w @ JStr index_url # rest"
    using request_gets [OF req] by auto
  have written: "fs (snd (download_xgi_data L dataset path w))
        = (fs w)(?cfp \<mapsto> File (json_dumps L data))
      \<and> fs (snd (download_xgi_data L dataset path w))
           (os_path_join path (str_lower L dataset @ lit ''.json'')) = Some n"
    if "request_from_xgi_data L dataset w = (Inr data, w1)" "can_write w ?cfp"
  proof -
    have "fs w ?cfp \<noteq> Some Dir" using miss by simp
    from download_ok [OF that(1) that(2) this]
    have "fs (snd (download_xgi_data L dataset path w))
        = (fs w)(?cfp \<mapsto> File (json_dumps L data))"
      by simp
    moreover have "os_path_join path (str_lower L dataset @ lit ''.json'') \<noteq> ?cfp"
      using assms miss by (auto simp add: cache_path_def)
    ultimately show ?thesis using assms(2) by simp
  qed
  show ?thesis
    using goes net written unfolding cache_path_def by blast
qed


text \<open>Two names that differ only in case.\<close>

lemma mixed_case_paths:
  "os_path_join [] (lit ''Email-Enron'' @ lit ''.json'') = lit ''Email-Enron.json''"
  "os_path_join [] (lit ''email-enron'' @ lit ''.json'') = lit ''email-enron.json''"
  "lit ''Email-Enron.json'' \<noteq> lit ''email-enron.json''"
  by (simp_all add: os_path_join_def lit_def)

theorem cache_path_verbatim_witness:
  "fs ((mock_world index_text)\<lparr>fs := [lit ''email-enron.json'' \<mapsto> File index_text]\<rparr>)
      (os_path_join [] (lit ''Email-Enron'' @ lit ''.json'')) = None \<and>
   fs ((mock_world index_text)\<lparr>fs := [lit ''email-enron.json'' \<mapsto> File index_text]\<rparr>)
      (os_path_join [] (str_lower mock_env (lit ''Email-Enron'') @ lit ''.json''))
     = Some (File index_text) \<and>
   gets (snd (load_xgi_data mock_env (lit ''Email-Enron'') [] True None None None
      ((mock_world index_text)\<lparr>fs := [lit ''email-enron.json'' \<mapsto> File index_text]\<rparr>)))
     = [JStr index_url, JStr enron_url] \<and>
   fst (load_xgi_data mock_env (lit ''Email-Enron'') [] True None None None
      ((mock_world index_text)\<lparr>fs := [lit ''email-enron.json'' \<mapsto> File index_text]\<rparr>))
     = Inr (enron_value, None, None, None) \<and>
   request_from_xgi_data mock_env (lit ''Email-Enron'')
      ((mock_world index_text)\<lparr>fs := [lit ''email-enron.json'' \<mapsto> File index_text]\<rparr>)
     = (Inr enron_value,
        (mock_world index_text)\<lparr>fs := [lit ''email-enron.json'' \<mapsto> File index_text],
          gets := [JStr index_url, JStr enron_url]\<rparr>) \<and>
   can_write ((mock_world index_text)\<lparr>fs := [lit ''email-enron.json'' \<mapsto> File index_text]\<rparr>)
      (os_path_join [] (lit ''Email-Enron'' @ lit ''.json'')) \<and>
   fs (snd (download_xgi_data mock_env (lit ''Email-Enron'') []
      ((mock_world index_text)\<lparr>fs := [lit ''email-enron.json'' \<mapsto> File index_text]\<rparr>)))
     = [lit ''email-enron.json'' \<mapsto> File index_text, lit ''Email-Enron.json'' \<mapsto> File enron_text]"
  using cache_path_verbatim [of "(mock_world index_text)\<lparr>fs := [lit ''email-enron.json'' \<mapsto> File index_text]\<rparr>"
      "[]" "lit ''Email-Enron''" mock_env "File index_text" None None None enron_value
      "(mock_world index_text)\<lparr>fs := [lit ''email-enron.json'' \<mapsto> File index_text],
          gets := [JStr index_url, JStr enron_url]\<rparr>"]
    mock_request_enron [of "(mock_world index_text)\<lparr>fs := [lit ''email-enron.json'' \<mapsto> File index_text]\<rparr>"
      "lit ''Email-Enron''"]
    mock_request_enron [of "warn (no_local_copy (lit ''Email-Enron.json''))
        ((mock_world index_text)\<lparr>fs := [lit ''email-enron.json'' \<mapsto> File index_text]\<rparr>)"
      "lit ''Email-Enron''"]
  by (simp add: lower_enron mixed_case_paths mock_dumps_enron)

end
